theory Spec2Isabelle
  imports Complex_Main "HOL-Library.Sublist"
begin

section \<open>Python text\<close>

text \<open>
  A Python \<open>str\<close> is a sequence of Unicode code points, so it is a list of naturals here
  (a HOL \<open>char\<close> is a byte and could not tell a character count from a byte count).
  Column names, model names and other identifiers that are only compared for equality stay
  HOL strings; \<open>ascii\<close> turns such a literal into Python text.
\<close>

type_synonym pystr = "nat list"

definition ascii :: "string \<Rightarrow> pystr" where
  "ascii s = map of_char s"

text \<open>\<open>s.replace("\n", " ")\<close>: every line feed (code point 10) becomes a space (32).\<close>

definition replace_nl :: "pystr \<Rightarrow> pystr" where
  "replace_nl s = map (\<lambda>c. if c = 10 then 32 else c) s"

text \<open>\<open>sep.join(xs)\<close>.\<close>

fun join :: "pystr \<Rightarrow> pystr list \<Rightarrow> pystr" where
  "join sep [] = []"
| "join sep [x] = x"
| "join sep (x # y # ys) = x @ sep @ join sep (y # ys)"

fun cons_head :: "nat \<Rightarrow> pystr list \<Rightarrow> pystr list" where
  "cons_head c [] = [[c]]"
| "cons_head c (p # ps) = (c # p) # ps"

text \<open>
  \<open>s.split(sep)\<close> for a non-empty separator: the parts between the non-overlapping
  occurrences of \<open>sep\<close>, found from the left. (Python raises on an empty separator; the
  source splits on the constant \<open>"__label__"\<close> only.)
\<close>

fun py_split :: "pystr \<Rightarrow> pystr \<Rightarrow> pystr list" where
  "py_split sep [] = [[]]"
| "py_split sep (c # cs) =
     (if sep \<noteq> [] \<and> prefix sep (c # cs)
      then [] # py_split sep (drop (length sep - 1) cs)
      else cons_head c (py_split sep cs))"

subsection \<open>Byte length\<close>

text \<open>The UTF-8 encoding of one code point, as a list of byte values.\<close>

definition utf8_encode :: "nat \<Rightarrow> nat list" where
  "utf8_encode c =
     (if c < 128 then [c]
      else if c < 2048 then [192 + c div 64, 128 + c mod 64]
      else if c < 65536 then [224 + c div 4096, 128 + (c div 64) mod 64, 128 + c mod 64]
      else [240 + c div 262144, 128 + (c div 4096) mod 64, 128 + (c div 64) mod 64,
            128 + c mod 64])"

text \<open>
  Modelled from the spec: \<open>byte_len\<close> of \<open>galactic/utils.py\<close>, which is not among the
  sources. The spec calls it the byte length of the text ("5 characters, 6 encoded bytes"
  for a five-letter word with one accented letter), so it is the length of the UTF-8
  encoding. Code points are taken to be Unicode scalar values.
\<close>

definition byte_len :: "pystr \<Rightarrow> nat" where
  "byte_len x = length (concat (map utf8_encode x))"

section \<open>Values, rows and the dataset\<close>

text \<open>
  A NumPy float: a real number (rounding is not modelled) or one of the three values a
  division by zero or an overflow produces.
\<close>

datatype pyfloat = Fin real | PosInf | NegInf | NaN

text \<open>
  The values a row holds. The analyzers look at a value in two ways only:
  \<open>isinstance(v, str)\<close> and \<open>str(v)\<close>. So an object that is neither text, a boolean, an
  integer, a float nor \<open>None\<close> (a list, a dict, an array) is \<open>PObj\<close> of the text that
  \<open>str\<close> returns for it.
\<close>

datatype pyval = PStr pystr | PBool bool | PInt int | PFloat pyfloat | PNone | PObj pystr

fun dec_nat :: "nat \<Rightarrow> pystr" where
  "dec_nat n = (if n < 10 then [48 + n] else dec_nat (n div 10) @ [48 + n mod 10])"

declare dec_nat.simps [simp del]

definition str_int :: "int \<Rightarrow> pystr" where
  "str_int i = (if i < 0 then 45 # dec_nat (nat (- i)) else dec_nat (nat i))"

text \<open>
  The builtin \<open>str\<close>. The printed form of a float is Python's own business: it is the
  parameter \<open>repr_float\<close>.
\<close>

fun py_str :: "(pyfloat \<Rightarrow> pystr) \<Rightarrow> pyval \<Rightarrow> pystr" where
  "py_str repr_float (PStr s) = s"
| "py_str repr_float (PBool b) = (if b then ascii ''True'' else ascii ''False'')"
| "py_str repr_float (PInt i) = str_int i"
| "py_str repr_float (PFloat x) = repr_float x"
| "py_str repr_float PNone = ascii ''None''"
| "py_str repr_float (PObj printed) = printed"

text \<open>A row (\<open>sample\<close>) is a dict from column name to value.\<close>

type_synonym row = "string \<rightharpoonup> pyval"

text \<open>The columns a per-row function returns: a dict literal, in the order it is written.\<close>

type_synonym columns = "(string \<times> pyval) list"

datatype error =
    FieldNotFound string
  | NotStringField string
  | KenlmNeedsLanguageAndDataset
  | ModelNotSupported string
  | KeyError string
  | IndexError
  | AttributeError
  | TypeError
  | ReError
  | External string

text \<open>
  \<open>FieldNotFound\<close>, \<open>NotStringField\<close>, \<open>KenlmNeedsLanguageAndDataset\<close> and
  \<open>ModelNotSupported\<close> are the four \<open>ValueError\<close>s the source raises itself, told apart
  by their messages. \<open>KeyError\<close>, \<open>IndexError\<close>, \<open>AttributeError\<close> and \<open>TypeError\<close> are
  Python's own, raised by a subscript on a missing key, an index out of range and a method
  looked up on \<open>None\<close>; \<open>TypeError\<close> stands for a tokenizer or a scorer turning down a
  value that is not text. \<open>ReError\<close> is a pattern that does not compile. \<open>External\<close> is a
  failure of a capability outside the repository (a model that cannot be loaded, a scorer
  that fails).
\<close>

record hf_dataset =
  features :: "string \<rightharpoonup> string"
  rows :: "row list"

text \<open>
  \<open>features\<close> is the schema (column name to dtype name), \<open>rows\<close> the rows in order.
  The pipeline object (\<open>self\<close>) owns the dataset.
\<close>

record galactic =
  dataset :: hf_dataset

subsection \<open>The row mapper\<close>

text \<open>\<open>{**sample, **out}\<close>: the returned columns are written into the row, a later one winning.\<close>

fun update_row :: "row \<Rightarrow> columns \<Rightarrow> row" where
  "update_row r [] = r"
| "update_row r ((k, v) # kvs) = update_row (r(k \<mapsto> v)) kvs"

text \<open>
  \<open>Dataset.map\<close> of the dataset library, by its contract in the spec: the function is applied
  to every row in order, its columns are merged into the row, row order and count are kept,
  and the first row on which the function raises aborts the whole call.
\<close>

fun map_rows :: "(row \<Rightarrow> error + columns) \<Rightarrow> row list \<Rightarrow> error + row list" where
  "map_rows f [] = Inr []"
| "map_rows f (r # rs) =
     (case f r of
        Inl e \<Rightarrow> Inl e
      | Inr out \<Rightarrow>
          (case map_rows f rs of
             Inl e \<Rightarrow> Inl e
           | Inr rs' \<Rightarrow> Inr (update_row r out # rs')))"

fun dtype_of :: "pyval \<Rightarrow> string" where
  "dtype_of (PStr s) = ''string''"
| "dtype_of (PBool b) = ''bool''"
| "dtype_of (PInt i) = ''int64''"
| "dtype_of (PFloat x) = ''float64''"
| "dtype_of PNone = ''null''"
| "dtype_of (PObj printed) = ''object''"

fun add_features :: "(string \<rightharpoonup> string) \<Rightarrow> columns \<Rightarrow> (string \<rightharpoonup> string)" where
  "add_features fs [] = fs"
| "add_features fs ((k, v) # kvs) = add_features (fs(k \<mapsto> dtype_of v)) kvs"

text \<open>The schema after a map: the types of the new columns are read off the first row's.\<close>

definition new_features :: "(row \<Rightarrow> error + columns) \<Rightarrow> hf_dataset \<Rightarrow> (string \<rightharpoonup> string)" where
  "new_features f ds =
     (case rows ds of
        [] \<Rightarrow> features ds
      | r # rs \<Rightarrow> (case f r of Inl e \<Rightarrow> features ds | Inr out \<Rightarrow> add_features (features ds) out))"

definition ds_map :: "(row \<Rightarrow> error + columns) \<Rightarrow> hf_dataset \<Rightarrow> error + hf_dataset" where
  "ds_map f ds =
     (case map_rows f (rows ds) of
        Inl e \<Rightarrow> Inl e
      | Inr rs' \<Rightarrow> Inr \<lparr>features = new_features f ds, rows = rs'\<rparr>)"

text \<open>
  \<open>self.dataset = self.dataset.map(f); return self\<close>. The result of an operation is the
  exception it raised, if any, and the pipeline object as the call leaves it: the assignment
  happens only when the map has returned.
\<close>

definition map_in_place :: "(row \<Rightarrow> error + columns) \<Rightarrow> galactic \<Rightarrow> error option \<times> galactic" where
  "map_in_place f self =
     (case ds_map f (dataset self) of
        Inl e \<Rightarrow> (Some e, self)
      | Inr ds \<Rightarrow> (None, self\<lparr>dataset := ds\<rparr>))"

section \<open>The \<open>re\<close> module, as far as escaped alternations need it\<close>

text \<open>
  \<open>re.escape\<close> puts a backslash before each of
  \<open>( ) [ ] { } ? * + - | ^ $ \ . & ~ #\<close>, space, tab, line feed, carriage return,
  vertical tab and form feed, and leaves every other character alone.
\<close>

definition special_chars :: "nat list" where
  "special_chars = [40, 41, 91, 93, 123, 125, 63, 42, 43, 45, 124, 94, 36, 92, 46, 38, 126, 35,
                    32, 9, 10, 13, 11, 12]"

definition re_escape :: "pystr \<Rightarrow> pystr" where
  "re_escape pattern = concat (map (\<lambda>c. if c \<in> set special_chars then [92, c] else [c]) pattern)"

definition ascii_alnum :: "nat \<Rightarrow> bool" where
  "ascii_alnum c = ((48 \<le> c \<and> c \<le> 57) \<or> (65 \<le> c \<and> c \<le> 90) \<or> (97 \<le> c \<and> c \<le> 122))"

text \<open>The characters that are operators when they stand unescaped: \<open>. ^ $ * + ? { } [ ] ( )\<close>.\<close>

definition metachars :: "nat list" where
  "metachars = [46, 94, 36, 42, 43, 63, 123, 125, 91, 93, 40, 41]"

text \<open>
  A compiled pattern of the fragment: an alternation of literal strings, tried in order.
  \<open>re_compile\<close> reads a pattern made of literal characters, escaped characters (a backslash
  before a character that is not an ASCII letter or digit stands for that character) and
  \<open>|\<close> between the alternatives. \<open>None\<close> is every other pattern: an unescaped operator,
  a backslash before a letter or digit (a character class or a group reference) or at the
  end. \<open>tag_string\<close> only compiles patterns of the fragment (\<open>compile_escaped\<close> below).
\<close>

type_synonym regexp = "pystr list"

fun re_compile :: "pystr \<Rightarrow> regexp option" where
  "re_compile [] = Some [[]]"
| "re_compile (c # rest) =
     (if c = 124 then map_option (\<lambda>bs. [] # bs) (re_compile rest)
      else if c = 92 then
        (case rest of
           [] \<Rightarrow> None
         | d # rest' \<Rightarrow>
             if ascii_alnum d then None else map_option (cons_head d) (re_compile rest'))
      else if c \<in> set metachars then None
      else map_option (cons_head c) (re_compile rest))"

text \<open>
  \<open>regexp.search(s)\<close> as a truth value (a match object is true, \<open>None\<close> is false): the
  positions of \<open>s\<close> are tried from the left, the end of \<open>s\<close> included, and at each one the
  alternatives in order.
\<close>

definition match_at :: "regexp \<Rightarrow> pystr \<Rightarrow> bool" where
  "match_at regexp s = list_ex (\<lambda>b. prefix b s) regexp"

fun search :: "regexp \<Rightarrow> pystr \<Rightarrow> bool" where
  "search regexp [] = match_at regexp []"
| "search regexp (c # cs) = (match_at regexp (c # cs) \<or> search regexp cs)"

section \<open>Capabilities from outside the repository\<close>

text \<open>
  \<open>model.predict(s)\<close> of a fastText model: the labels, best first, and their probabilities.
\<close>

type_synonym predictor = "pystr \<Rightarrow> error + (pystr list \<times> real list)"

text \<open>
  The neural scorer: \<open>tokenizer(s).input_ids\<close>, \<open>tokenizer.convert_ids_to_tokens\<close> and
  \<open>model.score_batch([tokens])[0].log_probs\<close>.
\<close>

record pythia =
  input_ids :: "pystr \<Rightarrow> error + nat list"
  convert_ids_to_tokens :: "nat list \<Rightarrow> pystr list"
  score_batch :: "pystr list \<Rightarrow> error + real list"

text \<open>A finding of the entity scanner; the source reads its \<open>detector_name\<close> only.\<close>

datatype filth = Filth (detector_name: string)

text \<open>
  Everything the operations are handed: Python's float printing and \<open>str.lower\<close>,
  the model hub with the fastText loader (by file name), the neural scorer's loader,
  \<open>KenlmModel.from_pretrained(dataset, language)\<close> giving \<open>get_perplexity\<close>
  (\<open>galactic/kenlm.py\<close> is not among the sources, so the n-gram model is a parameter like
  the libraries), \<open>scrubadub.list_filth\<close>, and \<open>AutoTokenizer.from_pretrained(name)\<close>
  giving the \<open>input_ids\<close> of a text. A loader that fails returns its error.
\<close>

record capabilities =
  repr_float :: "pyfloat \<Rightarrow> pystr"
  str_lower :: "pystr \<Rightarrow> pystr"
  load_fasttext :: "string \<Rightarrow> error + predictor"
  load_pythia :: "error + pythia"
  kenlm_from_pretrained :: "string \<Rightarrow> string \<Rightarrow> error + (pystr \<Rightarrow> error + real)"
  list_filth :: "pystr \<Rightarrow> filth list"
  auto_tokenizer :: "string \<Rightarrow> error + (pystr \<Rightarrow> nat list)"

section \<open>The operations\<close>

subsection \<open>\<open>tag_string\<close>\<close>

text \<open>
  The inner function \<open>tag_\<close>: the fields in the order given, a field that the row lacks
  skipped, the value searched as it is when it is text and through \<open>str\<close> otherwise, and
  the first field that matches decides. (The parameter \<open>fields\<close> is \<open>field_names\<close>
  throughout.)
\<close>

fun tag_row :: "capabilities \<Rightarrow> regexp \<Rightarrow> string \<Rightarrow> string list \<Rightarrow> row \<Rightarrow> columns" where
  "tag_row caps regexp tag [] sample = [(''__tag__'' @ tag, PBool False)]"
| "tag_row caps regexp tag (field # field_names) sample =
     (case sample field of
        None \<Rightarrow> tag_row caps regexp tag field_names sample
      | Some v \<Rightarrow>
          (case v of
             PStr s \<Rightarrow>
               if search regexp s then [(''__tag__'' @ tag, PBool True)]
               else tag_row caps regexp tag field_names sample
           | _ \<Rightarrow>
               if search regexp (py_str (repr_float caps) v) then [(''__tag__'' @ tag, PBool True)]
               else tag_row caps regexp tag field_names sample))"

text \<open>
  \<open>tag_string(fields, values, tag)\<close>. The warning about a tag that exists already is a log
  line and changes nothing. The pattern is the \<open>|\<close>-join of the escaped values.
\<close>

definition tag_string ::
  "capabilities \<Rightarrow> string list \<Rightarrow> pystr list \<Rightarrow> string \<Rightarrow> galactic \<Rightarrow> error option \<times> galactic" where
  "tag_string caps field_names vals tag self =
     (case re_compile (join [124] (map re_escape vals)) of
        None \<Rightarrow> (Some ReError, self)
      | Some regexp \<Rightarrow> map_in_place (\<lambda>sample. Inr (tag_row caps regexp tag field_names sample)) self)"

subsection \<open>\<open>detect_language\<close>\<close>

text \<open>\<open>result[0][0].split("__label__")[1]\<close> of a prediction.\<close>

definition top_label :: "pystr list \<times> real list \<Rightarrow> error + pystr" where
  "top_label result =
     (case fst result of
        [] \<Rightarrow> Inl IndexError
      | l # ls \<Rightarrow>
          (case py_split (ascii ''__label__'') l of
             p # code # ps \<Rightarrow> Inr code
           | _ \<Rightarrow> Inl IndexError))"

text \<open>The inner function \<open>detect_\<close> of \<open>detect_language\<close>.\<close>

definition detect_language_row :: "capabilities \<Rightarrow> predictor \<Rightarrow> string \<Rightarrow> row \<Rightarrow> error + columns" where
  "detect_language_row caps model field sample =
     (case sample field of
        None \<Rightarrow> Inl (KeyError field)
      | Some v \<Rightarrow>
          (case (case v of
                   PStr s \<Rightarrow> model (replace_nl s)
                 | _ \<Rightarrow> model (py_str (repr_float caps) v)) of
             Inl e \<Rightarrow> Inl e
           | Inr result \<Rightarrow>
               (case top_label result of
                  Inl e \<Rightarrow> Inl e
                | Inr code \<Rightarrow> Inr [(''__language'', PStr code)])))"

definition detect_language :: "capabilities \<Rightarrow> string \<Rightarrow> galactic \<Rightarrow> error option \<times> galactic" where
  "detect_language caps field self =
     (if field \<notin> dom (features (dataset self)) then (Some (FieldNotFound field), self)
      else
        (case load_fasttext caps ''lid.176.ftz'' of
           Inl e \<Rightarrow> (Some e, self)
         | Inr model \<Rightarrow> map_in_place (detect_language_row caps model field) self))"

subsection \<open>\<open>calc_perplexity\<close>\<close>

text \<open>
  NumPy's float arithmetic where the source uses it: a division by zero gives \<open>nan\<close> or an
  infinity with a warning, not an exception, and \<open>exp\<close> of minus infinity is 0.
\<close>

definition np_div :: "real \<Rightarrow> nat \<Rightarrow> pyfloat" where
  "np_div x n =
     (if n \<noteq> 0 then Fin (x / real n)
      else if x = 0 then NaN
      else if 0 < x then PosInf
      else NegInf)"

fun np_exp :: "pyfloat \<Rightarrow> pyfloat" where
  "np_exp (Fin x) = Fin (exp x)"
| "np_exp PosInf = PosInf"
| "np_exp NegInf = Fin 0"
| "np_exp NaN = NaN"

text \<open>
  The inner function \<open>calc_\<close> of the \<open>pythia\<close> branch. The column is typed as text, so a
  value is text or \<open>None\<close>, and the tokenizer rejects \<open>None\<close>.
\<close>

definition calc_pythia_row :: "pythia \<Rightarrow> string \<Rightarrow> row \<Rightarrow> error + columns" where
  "calc_pythia_row py field sample =
     (case sample field of
        None \<Rightarrow> Inl (KeyError field)
      | Some v \<Rightarrow>
          (case v of
             PStr s \<Rightarrow>
               (case input_ids py s of
                  Inl e \<Rightarrow> Inl e
                | Inr token_ids \<Rightarrow>
                    (case score_batch py (convert_ids_to_tokens py token_ids) of
                       Inl e \<Rightarrow> Inl e
                     | Inr log_probs \<Rightarrow>
                         Inr [(''__perplexity'',
                               PFloat (np_exp (np_div (- sum_list log_probs) (byte_len s))))]))
           | _ \<Rightarrow> Inl TypeError))"

text \<open>The inner function \<open>calc_\<close> of the \<open>kenlm\<close> branch.\<close>

definition calc_kenlm_row :: "(pystr \<Rightarrow> error + real) \<Rightarrow> string \<Rightarrow> row \<Rightarrow> error + columns" where
  "calc_kenlm_row get_perplexity field sample =
     (case sample field of
        None \<Rightarrow> Inl (KeyError field)
      | Some v \<Rightarrow>
          (case v of
             PStr s \<Rightarrow>
               (case get_perplexity s of
                  Inl e \<Rightarrow> Inl e
                | Inr ppl \<Rightarrow> Inr [(''__perplexity'', PFloat (Fin ppl))])
           | _ \<Rightarrow> Inl TypeError))"

text \<open>
  \<open>calc_perplexity(field, model, language, dataset)\<close> with every parameter bound;
  \<open>language\<close> and \<open>dataset\<close> are \<open>Optional[str]\<close>, so \<open>None\<close> is a value of theirs.
  The parameter \<open>dataset\<close> is \<open>dataset_name\<close> here, apart from the pipeline's \<open>dataset\<close>.
\<close>

definition calc_perplexity ::
  "capabilities \<Rightarrow> string \<Rightarrow> string \<Rightarrow> string option \<Rightarrow> string option \<Rightarrow> galactic
     \<Rightarrow> error option \<times> galactic" where
  "calc_perplexity caps field model language dataset_name self =
     (case features (dataset self) field of
        None \<Rightarrow> (Some (FieldNotFound field), self)
      | Some dtype \<Rightarrow>
          if dtype \<noteq> ''string'' then (Some (NotStringField field), self)
          else if model = ''pythia'' then
            (case load_pythia caps of
               Inl e \<Rightarrow> (Some e, self)
             | Inr py \<Rightarrow> map_in_place (calc_pythia_row py field) self)
          else if model = ''kenlm'' then
            (if language = None \<or> dataset_name = None
             then (Some KenlmNeedsLanguageAndDataset, self)
             else
               (case kenlm_from_pretrained caps (the dataset_name) (the language) of
                  Inl e \<Rightarrow> (Some e, self)
                | Inr get_perplexity \<Rightarrow> map_in_place (calc_kenlm_row get_perplexity field) self))
          else (Some (ModelNotSupported model), self))"




subsection \<open>\<open>detect_pii\<close>\<close>

text \<open>The loop of the inner function \<open>detect_\<close>: the findings of every field the row has.\<close>

fun collect_filth :: "capabilities \<Rightarrow> string list \<Rightarrow> row \<Rightarrow> filth list" where
  "collect_filth caps [] sample = []"
| "collect_filth caps (field # field_names) sample =
     (case sample field of
        None \<Rightarrow> []
      | Some v \<Rightarrow>
          (case v of
             PStr s \<Rightarrow> list_filth caps s
           | _ \<Rightarrow> list_filth caps (py_str (repr_float caps) v)))
     @ collect_filth caps field_names sample"

definition detect_pii_row :: "capabilities \<Rightarrow> string list \<Rightarrow> row \<Rightarrow> columns" where
  "detect_pii_row caps field_names sample =
     (let filth = collect_filth caps field_names sample;
          filth_types = map detector_name filth
      in map (\<lambda>f. (''__pii__'' @ f, PBool (f \<in> set filth_types))) [''email'', ''phone'', ''credential'']
         @ [(''__pii__any'', PBool (length filth > 0))])"

definition detect_pii :: "capabilities \<Rightarrow> string list \<Rightarrow> galactic \<Rightarrow> error option \<times> galactic" where
  "detect_pii caps field_names self = map_in_place (\<lambda>sample. Inr (detect_pii_row caps field_names sample)) self"

subsection \<open>\<open>detect_seo_spam\<close>\<close>

text \<open>The inner function \<open>detect_\<close> of \<open>detect_seo_spam\<close>; \<open>None\<close> has no \<open>replace\<close>.\<close>

definition detect_seo_spam_row :: "capabilities \<Rightarrow> predictor \<Rightarrow> string \<Rightarrow> row \<Rightarrow> error + columns" where
  "detect_seo_spam_row caps model field sample =
     (case sample field of
        None \<Rightarrow> Inl (KeyError field)
      | Some v \<Rightarrow>
          (case v of
             PStr s \<Rightarrow>
               (case model (str_lower caps (replace_nl s)) of
                  Inl e \<Rightarrow> Inl e
                | Inr result \<Rightarrow>
                    (case top_label result of
                       Inl e \<Rightarrow> Inl e
                     | Inr label \<Rightarrow>
                         (case snd result of
                            [] \<Rightarrow> Inl IndexError
                          | prob # probs \<Rightarrow>
                              if label = ascii ''discard''
                              then Inr [(''__seo_spam__'' @ field, PBool True),
                                        (''__seo_spam_prob__'' @ field, PFloat (Fin prob))]
                              else Inr [(''__seo_spam__'' @ field, PBool False),
                                        (''__seo_spam_prob__'' @ field, PFloat (Fin (1 - prob)))])))
           | _ \<Rightarrow> Inl AttributeError))"

definition detect_seo_spam :: "capabilities \<Rightarrow> string \<Rightarrow> galactic \<Rightarrow> error option \<times> galactic" where
  "detect_seo_spam caps field self =
     (case features (dataset self) field of
        None \<Rightarrow> (Some (FieldNotFound field), self)
      | Some dtype \<Rightarrow>
          if dtype \<noteq> ''string'' then (Some (NotStringField field), self)
          else
            (case load_fasttext caps ''seo_spam.ftz'' of
               Inl e \<Rightarrow> (Some e, self)
             | Inr model \<Rightarrow> map_in_place (detect_seo_spam_row caps model field) self))"

subsection \<open>\<open>count_tokens\<close>\<close>

text \<open>
  The dict comprehension \<open>{f"{field_name}{field}": count_fn(x[field]) for field in fields}\<close>:
  the subscript \<open>x[field]\<close> raises on a field the row lacks.
\<close>

fun count_row :: "string \<Rightarrow> (pyval \<Rightarrow> nat) \<Rightarrow> string list \<Rightarrow> row \<Rightarrow> error + columns" where
  "count_row field_name count_fn [] x = Inr []"
| "count_row field_name count_fn (field # field_names) x =
     (case x field of
        None \<Rightarrow> Inl (KeyError field)
      | Some v \<Rightarrow>
          (case count_row field_name count_fn field_names x of
             Inl e \<Rightarrow> Inl e
           | Inr kvs \<Rightarrow> Inr ((field_name @ field, PInt (int (count_fn v))) # kvs)))"

definition count_tokens ::
  "capabilities \<Rightarrow> string list \<Rightarrow> string option \<Rightarrow> galactic \<Rightarrow> error option \<times> galactic" where
  "count_tokens caps field_names tokenizer self =
     (case tokenizer of
        None \<Rightarrow>
          map_in_place
            (count_row ''__byte_count__'' (\<lambda>x. byte_len (py_str (repr_float caps) x)) field_names) self
      | Some name \<Rightarrow>
          (case auto_tokenizer caps name of
             Inl e \<Rightarrow> (Some e, self)
           | Inr tok \<Rightarrow>
               map_in_place
                 (count_row ''__token_count__''
                    (\<lambda>x. length (tok (py_str (repr_float caps) x))) field_names) self))"

section \<open>Test doubles\<close>

text \<open>
  Stand-ins for the outside capabilities, for running the operations on concrete rows:
  a language model that always answers \<open>en\<close>, a neural scorer whose tokens are the
  characters and whose log-probabilities are all \<open>-1\<close>, an n-gram model that always
  answers 42, a scanner that finds nothing and a tokenizer that splits into characters.
\<close>

definition test_caps :: capabilities where
  "test_caps =
     \<lparr>repr_float = (\<lambda>x. ascii ''0.5''),
      str_lower = (\<lambda>s. s),
      load_fasttext = (\<lambda>name. Inr (\<lambda>s. Inr ([ascii ''__label__en''], [1]))),
      load_pythia =
        Inr \<lparr>input_ids = (\<lambda>s. Inr s),
             convert_ids_to_tokens = map (\<lambda>i. [i]),
             score_batch = (\<lambda>tokens. Inr (map (\<lambda>t. - 1) tokens))\<rparr>,
      kenlm_from_pretrained = (\<lambda>d l. Inr (\<lambda>s. Inr 42)),
      list_filth = (\<lambda>s. []),
      auto_tokenizer = (\<lambda>name. Inr (\<lambda>s. s))\<rparr>"

definition test_pipeline :: "row list \<Rightarrow> galactic" where
  "test_pipeline rs = \<lparr>dataset = \<lparr>features = [''text'' \<mapsto> ''string''], rows = rs\<rparr>\<rparr>"

text \<open>
  A spam model that discards one text and keeps every other, and a scanner that finds one
  URL, a category that has no column of its own.
\<close>

definition spam_model :: predictor where
  "spam_model s =
     (if s = ascii ''buy now'' then Inr ([ascii ''__label__discard''], [8 / 10])
      else Inr ([ascii ''__label__keep''], [9 / 10]))"

definition url_scanner :: "pystr \<Rightarrow> filth list" where
  "url_scanner s = (if s = ascii ''see x.org'' then [Filth ''url''] else [])"



section \<open>Lemmas\<close>

subsection \<open>Escaped alternations\<close>

lemma search_iff: "search regexp s \<longleftrightarrow> (\<exists>b\<in>set regexp. sublist b s)"
  by (induction s) (auto simp: match_at_def list_ex_iff sublist_Cons_right)

lemma special_not_alnum: "c \<in> set special_chars \<Longrightarrow> \<not> ascii_alnum c"
  by (auto simp: special_chars_def ascii_alnum_def)

lemma not_special: "c \<notin> set special_chars \<Longrightarrow> c \<noteq> 124 \<and> c \<noteq> 92 \<and> c \<notin> set metachars"
  by (auto simp: special_chars_def metachars_def)

lemma compile_escaped_char:
  "re_compile ((if c \<in> set special_chars then [92, c] else [c]) @ rest) =
     map_option (cons_head c) (re_compile rest)"
proof (cases "c \<in> set special_chars")
  case True
  then have "\<not> ascii_alnum c" by (rule special_not_alnum)
  with True show ?thesis by simp
next
  case False
  from not_special [OF False] False show ?thesis by simp
qed

lemma compile_escape_append:
  "re_compile (re_escape v @ rest) = map_option (\<lambda>bs. foldr cons_head v bs) (re_compile rest)"
proof (induction v)
  case Nil
  show ?case by (simp add: re_escape_def option.map_ident)
next
  case (Cons c v)
  have "re_compile (re_escape (c # v) @ rest) =
        re_compile ((if c \<in> set special_chars then [92, c] else [c]) @ (re_escape v @ rest))"
    by (simp add: re_escape_def)
  also have "\<dots> = map_option (cons_head c) (re_compile (re_escape v @ rest))"
    by (rule compile_escaped_char)
  finally show ?case
    by (simp add: Cons.IH option.map_comp comp_def)
qed

lemma foldr_cons_head: "foldr cons_head v (b # bs) = (v @ b) # bs"
  by (induction v) auto

lemma compile_escaped:
  "re_compile (join [124] (map re_escape vals)) = Some (if vals = [] then [[]] else vals)"
proof (induction vals rule: induct_list012)
  case 1
  show ?case by simp
next
  case (2 x)
  from compile_escape_append [of x "[]"] show ?case by (simp add: foldr_cons_head)
next
  case (3 x y zs)
  from 3(2) compile_escape_append [of x "124 # join [124] (map re_escape (y # zs))"]
  show ?case by (simp add: foldr_cons_head)
qed

subsection \<open>The row mapper\<close>

lemma map_rows_Inr:
  "map_rows f rs = Inr rs' \<Longrightarrow>
     length rs' = length rs \<and>
     (\<forall>i<length rs. \<exists>out. f (rs ! i) = Inr out \<and> rs' ! i = update_row (rs ! i) out)"
proof (induction rs arbitrary: rs')
  case Nil
  then show ?case by simp
next
  case (Cons r rs)
  then show ?case
    by (auto split: sum.splits simp: nth_Cons split: nat.splits)
qed

lemma map_rows_total:
  "map_rows (\<lambda>r. Inr (g r)) rs = Inr (map (\<lambda>r. update_row r (g r)) rs)"
  by (induction rs) auto

lemma map_rows_ok_iff:
  "(\<exists>rs'. map_rows f rs = Inr rs') \<longleftrightarrow> (\<forall>r\<in>set rs. \<exists>out. f r = Inr out)"
  by (induction rs) (auto split: sum.splits)

lemma map_in_place_None:
  "fst (map_in_place f self) = None \<longleftrightarrow> (\<forall>r\<in>set (rows (dataset self)). \<exists>out. f r = Inr out)"
  using map_rows_ok_iff [of f "rows (dataset self)"]
  by (auto simp: map_in_place_def ds_map_def split: sum.splits)

lemma map_in_place_rows:
  assumes "fst (map_in_place f self) = None"
  shows "length (rows (dataset (snd (map_in_place f self)))) = length (rows (dataset self)) \<and>
     (\<forall>i<length (rows (dataset self)). \<exists>out.
        f (rows (dataset self) ! i) = Inr out \<and>
        rows (dataset (snd (map_in_place f self))) ! i = update_row (rows (dataset self) ! i) out)"
proof (cases "map_rows f (rows (dataset self))")
  case (Inl e)
  with assms show ?thesis by (simp add: map_in_place_def ds_map_def)
next
  case (Inr rs')
  from map_rows_Inr [OF Inr] Inr show ?thesis by (simp add: map_in_place_def ds_map_def)
qed

lemma map_in_place_raises:
  "fst (map_in_place f self) = Some e \<Longrightarrow> snd (map_in_place f self) = self"
  by (auto simp: map_in_place_def split: sum.splits)

lemma map_in_place_total:
  "map_in_place (\<lambda>r. Inr (g r)) self =
     (None, self\<lparr>dataset := \<lparr>features = new_features (\<lambda>r. Inr (g r)) (dataset self),
                                rows = map (\<lambda>r. update_row r (g r)) (rows (dataset self))\<rparr>\<rparr>)"
  by (simp add: map_in_place_def ds_map_def map_rows_total)


subsection \<open>The row functions\<close>

lemma tag_row_eq:
  "tag_row caps regexp tag fns sample =
     [(''__tag__'' @ tag,
       PBool (\<exists>f\<in>set fns. \<exists>v. sample f = Some v \<and> search regexp (py_str (repr_float caps) v)))]"
  by (induction fns) (auto split: option.splits pyval.splits)


lemma tag_string_rows:
  "fst (tag_string caps fns vals tag self) = None \<and>
   rows (dataset (snd (tag_string caps fns vals tag self))) =
     map (\<lambda>r. r(''__tag__'' @ tag \<mapsto>
            PBool (\<exists>f\<in>set fns. \<exists>v. r f = Some v \<and>
                     (\<exists>b\<in>set (if vals = [] then [[]] else vals).
                        sublist b (py_str (repr_float caps) v)))))
       (rows (dataset self))"
  by (simp add: tag_string_def compile_escaped map_in_place_total tag_row_eq search_iff
      del: set_simps)

lemma tag_row_present:
  "tag_row caps regexp tag (filter (\<lambda>f. f \<in> dom r) fns) r = tag_row caps regexp tag fns r"
  by (auto simp: tag_row_eq)

lemma count_row_present:
  "\<forall>f\<in>set fns. f \<in> dom x \<Longrightarrow>
     count_row name count_fn fns x = Inr (map (\<lambda>f. (name @ f, PInt (int (count_fn (the (x f)))))) fns)"
  by (induction fns) auto

lemma update_row_named:
  "update_row r (map (\<lambda>f. (name @ f, g f)) fns) (name @ f) =
     (if f \<in> set fns then Some (g f) else r (name @ f))"
  by (induction fns arbitrary: r) auto


lemma calc_pythia_row_Inr:
  "calc_pythia_row py field sample = Inr out \<longleftrightarrow>
     (\<exists>s token_ids log_probs.
        sample field = Some (PStr s) \<and> input_ids py s = Inr token_ids \<and>
        score_batch py (convert_ids_to_tokens py token_ids) = Inr log_probs \<and>
        out = [(''__perplexity'', PFloat (np_exp (np_div (- sum_list log_probs) (byte_len s))))])"
  by (auto simp: calc_pythia_row_def split: option.splits pyval.splits sum.splits)

lemma calc_pythia_row_ok:
  "(\<exists>out. calc_pythia_row py field sample = Inr out) \<longleftrightarrow>
     (\<exists>s token_ids log_probs.
        sample field = Some (PStr s) \<and> input_ids py s = Inr token_ids \<and>
        score_batch py (convert_ids_to_tokens py token_ids) = Inr log_probs)"
  by (auto simp: calc_pythia_row_def split: option.splits pyval.splits sum.splits)

lemma np_exp_div_finite:
  "0 < n \<Longrightarrow> np_exp (np_div x n) = Fin (exp (x / real n))"
  by (simp add: np_div_def)

lemma detect_seo_spam_row_Inr:
  "detect_seo_spam_row caps model field sample = Inr out \<longleftrightarrow>
     (\<exists>s labels prob probs label.
        sample field = Some (PStr s) \<and>
        model (str_lower caps (replace_nl s)) = Inr (labels, prob # probs) \<and>
        top_label (labels, prob # probs) = Inr label \<and>
        out = [(''__seo_spam__'' @ field, PBool (label = ascii ''discard'')),
               (''__seo_spam_prob__'' @ field,
                PFloat (Fin (if label = ascii ''discard'' then prob else 1 - prob)))])"
  by (auto simp: detect_seo_spam_row_def split: option.splits pyval.splits sum.splits list.splits)

lemma seo_spam_columns_differ: "''__seo_spam__'' @ field \<noteq> ''__seo_spam_prob__'' @ field"
  by simp

lemma detect_seo_spam_row_ok:
  "(\<exists>out. detect_seo_spam_row caps model field sample = Inr out) \<longleftrightarrow>
     (\<exists>s labels prob probs label.
        sample field = Some (PStr s) \<and>
        model (str_lower caps (replace_nl s)) = Inr (labels, prob # probs) \<and>
        top_label (labels, prob # probs) = Inr label)"
  unfolding detect_seo_spam_row_Inr by blast

lemma top_label_keep: "top_label ([ascii ''__label__keep''], ps) = Inr (ascii ''keep'')"
  by (simp add: top_label_def ascii_def)

lemma top_label_discard: "top_label ([ascii ''__label__discard''], ps) = Inr (ascii ''discard'')"
  by (simp add: top_label_def ascii_def)

lemma str_of_any:
  "(case v of PStr s \<Rightarrow> g s | PBool b \<Rightarrow> g (py_str rf v) | PInt i \<Rightarrow> g (py_str rf v)
      | PFloat x \<Rightarrow> g (py_str rf v) | PNone \<Rightarrow> g (py_str rf v) | PObj p \<Rightarrow> g (py_str rf v)) =
   g (py_str rf v)"
  by (cases v) simp_all

lemma collect_filth_Cons:
  "collect_filth caps (f # fns) r =
     (case r f of None \<Rightarrow> [] | Some v \<Rightarrow> list_filth caps (py_str (repr_float caps) v))
     @ collect_filth caps fns r"
  by (simp add: str_of_any split: option.splits)

lemma collect_filth_mem:
  "x \<in> set (collect_filth caps fns r) \<longleftrightarrow>
     (\<exists>f\<in>set fns. \<exists>v. r f = Some v \<and> x \<in> set (list_filth caps (py_str (repr_float caps) v)))"
proof (induction fns)
  case Nil
  show ?case by simp
next
  case (Cons f fns)
  show ?case
    by (cases "r f") (auto simp: collect_filth_Cons Cons.IH simp del: collect_filth.simps)
qed

lemma collect_filth_nonempty:
  "collect_filth caps fns r \<noteq> [] \<longleftrightarrow>
     (\<exists>f\<in>set fns. \<exists>v. r f = Some v \<and> list_filth caps (py_str (repr_float caps) v) \<noteq> [])"
proof (induction fns)
  case Nil
  show ?case by simp
next
  case (Cons f fns)
  show ?case
    by (cases "r f") (auto simp: collect_filth_Cons Cons.IH simp del: collect_filth.simps)
qed

lemma filth_types_mem:
  "c \<in> set (map detector_name (collect_filth caps fns r)) \<longleftrightarrow>
     (\<exists>f\<in>set fns. \<exists>v. r f = Some v \<and>
        (\<exists>x\<in>set (list_filth caps (py_str (repr_float caps) v)). detector_name x = c))"
  unfolding set_map image_iff Bex_def collect_filth_mem by blast

lemma detect_pii_row_eq:
  "detect_pii_row caps fns r =
     [(''__pii__email'', PBool (''email'' \<in> set (map detector_name (collect_filth caps fns r)))),
      (''__pii__phone'', PBool (''phone'' \<in> set (map detector_name (collect_filth caps fns r)))),
      (''__pii__credential'',
         PBool (''credential'' \<in> set (map detector_name (collect_filth caps fns r)))),
      (''__pii__any'', PBool (collect_filth caps fns r \<noteq> []))]"
  by (simp add: detect_pii_row_def Let_def del: set_map)

lemma detect_pii_row_category:
  assumes "c \<in> set [''email'', ''phone'', ''credential'']"
  shows "update_row r (detect_pii_row caps fns r) (''__pii__'' @ c) =
       Some (PBool (\<exists>f\<in>set fns. \<exists>v. r f = Some v \<and>
               (\<exists>x\<in>set (list_filth caps (py_str (repr_float caps) v)). detector_name x = c)))"
proof -
  have "update_row r (detect_pii_row caps fns r) (''__pii__'' @ c) =
      Some (PBool (c \<in> set (map detector_name (collect_filth caps fns r))))"
  proof -
    from assms consider "c = ''email''" | "c = ''phone''" | "c = ''credential''" by auto
    then show ?thesis
    proof cases
      case 1
      then show ?thesis by (simp add: detect_pii_row_eq del: set_map)
    next
      case 2
      then show ?thesis by (simp add: detect_pii_row_eq del: set_map)
    next
      case 3
      then show ?thesis by (simp add: detect_pii_row_eq del: set_map)
    qed
  qed
  then show ?thesis by (simp only: filth_types_mem)
qed

lemma detect_pii_row_any:
  "update_row r (detect_pii_row caps fns r) ''__pii__any'' =
     Some (PBool (\<exists>f\<in>set fns. \<exists>v. r f = Some v \<and>
             list_filth caps (py_str (repr_float caps) v) \<noteq> []))"
proof -
  have "update_row r (detect_pii_row caps fns r) ''__pii__any'' =
      Some (PBool (collect_filth caps fns r \<noteq> []))"
    by (simp add: detect_pii_row_eq del: set_map)
  then show ?thesis by (simp only: collect_filth_nonempty)
qed

section \<open>The claims\<close>

subsection \<open>Perplexity\<close>

text \<open>
  Claim C1. A successful \<open>calc_perplexity\<close> with the \<open>pythia\<close> backend writes, in every
  row, \<open>__perplexity = exp(-(sum of the log-probabilities of the row's tokens) / (byte
  length of the row's text))\<close>: the divisor is \<open>byte_len\<close> of the text as the row holds it,
  not the number of tokens. The call succeeds exactly when every row holds text that the
  tokenizer and the scorer accept; \<open>language\<close> and \<open>dataset\<close> play no part. For a text of
  zero bytes the division is NumPy's division by zero (\<open>np_div\<close>).
\<close>

theorem calc_perplexity_pythia:
  assumes "features (dataset self) field = Some ''string''"
    and "load_pythia caps = Inr py"
  shows "(fst (calc_perplexity caps field ''pythia'' language dataset_name self) = None \<longleftrightarrow>
      (\<forall>r\<in>set (rows (dataset self)). \<exists>s token_ids log_probs.
         r field = Some (PStr s) \<and> input_ids py s = Inr token_ids \<and>
         score_batch py (convert_ids_to_tokens py token_ids) = Inr log_probs)) \<and>
    (fst (calc_perplexity caps field ''pythia'' language dataset_name self) = None \<longrightarrow>
      length (rows (dataset (snd (calc_perplexity caps field ''pythia'' language dataset_name self)))) =
        length (rows (dataset self)) \<and>
      (\<forall>i<length (rows (dataset self)). \<exists>s token_ids log_probs.
         (rows (dataset self) ! i) field = Some (PStr s) \<and> input_ids py s = Inr token_ids \<and>
         score_batch py (convert_ids_to_tokens py token_ids) = Inr log_probs \<and>
         (rows (dataset (snd (calc_perplexity caps field ''pythia'' language dataset_name self))) ! i)
            ''__perplexity'' =
           Some (PFloat (np_exp (np_div (- sum_list log_probs) (byte_len s)))) \<and>
         (0 < byte_len s \<longrightarrow>
          (rows (dataset (snd (calc_perplexity caps field ''pythia'' language dataset_name self))) ! i)
             ''__perplexity'' =
            Some (PFloat (Fin (exp (- sum_list log_probs / real (byte_len s))))))))"
proof -
  let ?f = "calc_pythia_row py field"
  have eq: "calc_perplexity caps field ''pythia'' language dataset_name self = map_in_place ?f self"
    using assms by (simp add: calc_perplexity_def)
  have a: "fst (map_in_place ?f self) = None \<longleftrightarrow>
      (\<forall>r\<in>set (rows (dataset self)). \<exists>s token_ids log_probs.
         r field = Some (PStr s) \<and> input_ids py s = Inr token_ids \<and>
         score_batch py (convert_ids_to_tokens py token_ids) = Inr log_probs)"
    by (simp only: map_in_place_None calc_pythia_row_ok)
  have b: "\<exists>s token_ids log_probs.
         (rows (dataset self) ! i) field = Some (PStr s) \<and> input_ids py s = Inr token_ids \<and>
         score_batch py (convert_ids_to_tokens py token_ids) = Inr log_probs \<and>
         (rows (dataset (snd (map_in_place ?f self))) ! i) ''__perplexity'' =
           Some (PFloat (np_exp (np_div (- sum_list log_probs) (byte_len s)))) \<and>
         (0 < byte_len s \<longrightarrow>
          (rows (dataset (snd (map_in_place ?f self))) ! i) ''__perplexity'' =
            Some (PFloat (Fin (exp (- sum_list log_probs / real (byte_len s))))))"
    if ok: "fst (map_in_place ?f self) = None" and i: "i < length (rows (dataset self))" for i
  proof -
    from map_in_place_rows [OF ok] i obtain out where
      out: "?f (rows (dataset self) ! i) = Inr out"
        "rows (dataset (snd (map_in_place ?f self))) ! i = update_row (rows (dataset self) ! i) out"
      by blast
    from out(1) obtain s token_ids log_probs where
      s: "(rows (dataset self) ! i) field = Some (PStr s)" "input_ids py s = Inr token_ids"
        "score_batch py (convert_ids_to_tokens py token_ids) = Inr log_probs"
        "out = [(''__perplexity'', PFloat (np_exp (np_div (- sum_list log_probs) (byte_len s))))]"
      unfolding calc_pythia_row_Inr by blast
    from s out(2) show ?thesis
      by (auto simp: np_exp_div_finite)
  qed
  show ?thesis
    unfolding eq
  proof (intro conjI impI allI)
    show "fst (map_in_place ?f self) = None \<longleftrightarrow>
      (\<forall>r\<in>set (rows (dataset self)). \<exists>s token_ids log_probs.
         r field = Some (PStr s) \<and> input_ids py s = Inr token_ids \<and>
         score_batch py (convert_ids_to_tokens py token_ids) = Inr log_probs)"
      by (rule a)
  next
    assume "fst (map_in_place ?f self) = None"
    then show "length (rows (dataset (snd (map_in_place ?f self)))) = length (rows (dataset self))"
      by (simp add: map_in_place_rows)
  next
    fix i
    assume "fst (map_in_place ?f self) = None" and "i < length (rows (dataset self))"
    then show "\<exists>s token_ids log_probs.
         (rows (dataset self) ! i) field = Some (PStr s) \<and> input_ids py s = Inr token_ids \<and>
         score_batch py (convert_ids_to_tokens py token_ids) = Inr log_probs \<and>
         (rows (dataset (snd (map_in_place ?f self))) ! i) ''__perplexity'' =
           Some (PFloat (np_exp (np_div (- sum_list log_probs) (byte_len s)))) \<and>
         (0 < byte_len s \<longrightarrow>
          (rows (dataset (snd (map_in_place ?f self))) ! i) ''__perplexity'' =
            Some (PFloat (Fin (exp (- sum_list log_probs / real (byte_len s))))))"
      by (rule b)
  qed
qed

theorem calc_perplexity_pythia_witness:
  "(rows (dataset (snd (calc_perplexity test_caps ''text'' ''pythia'' None None
      (test_pipeline [[''text'' \<mapsto> PStr [104, 233, 108, 108, 111]]])))) ! 0) ''__perplexity'' =
     Some (PFloat (Fin (exp (5 / 6))))"
proof -
  let ?p = "test_pipeline [[''text'' \<mapsto> PStr [104, 233, 108, 108, 111]]]"
  let ?py = "\<lparr>input_ids = (\<lambda>s. Inr s), convert_ids_to_tokens = map (\<lambda>i. [i]),
              score_batch = (\<lambda>tokens. Inr (map (\<lambda>t. - 1) tokens))\<rparr>"
  let ?R = "calc_perplexity test_caps ''text'' ''pythia'' None None ?p"
  have f: "features (dataset ?p) ''text'' = Some ''string''"
    by (simp add: test_pipeline_def)
  have l: "load_pythia test_caps = Inr ?py"
    by (simp add: test_caps_def)
  have r: "rows (dataset ?p) = [[''text'' \<mapsto> PStr [104, 233, 108, 108, 111]]]"
    by (simp add: test_pipeline_def)
  note inst = calc_perplexity_pythia [OF f l, of None None]
  from inst have ok: "fst ?R = None"
    by (simp add: r)
  with inst have "\<exists>s token_ids log_probs.
         (rows (dataset ?p) ! 0) ''text'' = Some (PStr s) \<and> input_ids ?py s = Inr token_ids \<and>
         score_batch ?py (convert_ids_to_tokens ?py token_ids) = Inr log_probs \<and>
         (rows (dataset (snd ?R)) ! 0) ''__perplexity'' =
           Some (PFloat (np_exp (np_div (- sum_list log_probs) (byte_len s))))"
    by (simp add: r)
  then obtain s token_ids log_probs where
    s: "(rows (dataset ?p) ! 0) ''text'' = Some (PStr s)" and
    t: "input_ids ?py s = Inr token_ids" and
    p: "score_batch ?py (convert_ids_to_tokens ?py token_ids) = Inr log_probs" and
    v: "(rows (dataset (snd ?R)) ! 0) ''__perplexity'' =
           Some (PFloat (np_exp (np_div (- sum_list log_probs) (byte_len s))))"
    by blast
  from s have s': "s = [104, 233, 108, 108, 111]" by (simp add: r)
  from t s' have t': "token_ids = [104, 233, 108, 108, 111]" by simp
  from p t' have p': "log_probs = [- 1, - 1, - 1, - 1, - 1]" by simp
  have b: "byte_len [104, 233, 108, 108, 111] = 6" by (simp add: byte_len_def utf8_encode_def)
  from v show ?thesis
    unfolding s' p' b by (simp add: np_div_def)
qed




subsection \<open>Spam\<close>

text \<open>
  Claim C2. A successful \<open>detect_seo_spam\<close> on field \<open>f\<close> writes, in every row,
  \<open>__seo_spam__f\<close> = whether the predicted label is \<open>discard\<close>, and \<open>__seo_spam_prob__f\<close> =
  the returned probability when it is and 1 minus it otherwise. The call succeeds exactly
  when every row holds text for which the model returns a label and a probability. A
  \<open>keep\<close> with 0.9 gives false and 0.1, a \<open>discard\<close> with 0.8 gives true and 0.8
  (probabilities are real numbers here).
\<close>

theorem detect_seo_spam_calibration:
  assumes "features (dataset self) field = Some ''string''"
    and "load_fasttext caps ''seo_spam.ftz'' = Inr model"
  shows "(fst (detect_seo_spam caps field self) = None \<longleftrightarrow>
      (\<forall>r\<in>set (rows (dataset self)). \<exists>s labels prob probs label.
         r field = Some (PStr s) \<and>
         model (str_lower caps (replace_nl s)) = Inr (labels, prob # probs) \<and>
         top_label (labels, prob # probs) = Inr label)) \<and>
    (fst (detect_seo_spam caps field self) = None \<longrightarrow>
      length (rows (dataset (snd (detect_seo_spam caps field self)))) = length (rows (dataset self)) \<and>
      (\<forall>i<length (rows (dataset self)). \<exists>s labels prob probs label.
         (rows (dataset self) ! i) field = Some (PStr s) \<and>
         model (str_lower caps (replace_nl s)) = Inr (labels, prob # probs) \<and>
         top_label (labels, prob # probs) = Inr label \<and>
         (rows (dataset (snd (detect_seo_spam caps field self))) ! i) (''__seo_spam__'' @ field) =
           Some (PBool (label = ascii ''discard'')) \<and>
         (rows (dataset (snd (detect_seo_spam caps field self))) ! i) (''__seo_spam_prob__'' @ field) =
           Some (PFloat (Fin (if label = ascii ''discard'' then prob else 1 - prob)))))"
proof -
  let ?f = "detect_seo_spam_row caps model field"
  have eq: "detect_seo_spam caps field self = map_in_place ?f self"
    using assms by (simp add: detect_seo_spam_def)
  have a: "fst (map_in_place ?f self) = None \<longleftrightarrow>
      (\<forall>r\<in>set (rows (dataset self)). \<exists>s labels prob probs label.
         r field = Some (PStr s) \<and>
         model (str_lower caps (replace_nl s)) = Inr (labels, prob # probs) \<and>
         top_label (labels, prob # probs) = Inr label)"
    by (simp only: map_in_place_None detect_seo_spam_row_ok)
  have b: "\<exists>s labels prob probs label.
       (rows (dataset self) ! i) field = Some (PStr s) \<and>
       model (str_lower caps (replace_nl s)) = Inr (labels, prob # probs) \<and>
       top_label (labels, prob # probs) = Inr label \<and>
       (rows (dataset (snd (map_in_place ?f self))) ! i) (''__seo_spam__'' @ field) =
         Some (PBool (label = ascii ''discard'')) \<and>
       (rows (dataset (snd (map_in_place ?f self))) ! i) (''__seo_spam_prob__'' @ field) =
         Some (PFloat (Fin (if label = ascii ''discard'' then prob else 1 - prob)))"
    if ok: "fst (map_in_place ?f self) = None" and i: "i < length (rows (dataset self))" for i
  proof -
    from map_in_place_rows [OF ok] i obtain out where
      out: "?f (rows (dataset self) ! i) = Inr out"
        "rows (dataset (snd (map_in_place ?f self))) ! i = update_row (rows (dataset self) ! i) out"
      by blast
    from out(1) obtain s labels prob probs label where
      s: "(rows (dataset self) ! i) field = Some (PStr s)"
        "model (str_lower caps (replace_nl s)) = Inr (labels, prob # probs)"
        "top_label (labels, prob # probs) = Inr label"
        "out = [(''__seo_spam__'' @ field, PBool (label = ascii ''discard'')),
               (''__seo_spam_prob__'' @ field,
                PFloat (Fin (if label = ascii ''discard'' then prob else 1 - prob)))]"
      unfolding detect_seo_spam_row_Inr by blast
    have "update_row (rows (dataset self) ! i) out (''__seo_spam__'' @ field) =
            Some (PBool (label = ascii ''discard''))"
      "update_row (rows (dataset self) ! i) out (''__seo_spam_prob__'' @ field) =
            Some (PFloat (Fin (if label = ascii ''discard'' then prob else 1 - prob)))"
      unfolding s(4) by simp_all
    with s(1,2,3) out(2) show ?thesis by metis
  qed
  show ?thesis
    unfolding eq
  proof (intro conjI impI allI)
    show "fst (map_in_place ?f self) = None \<longleftrightarrow>
      (\<forall>r\<in>set (rows (dataset self)). \<exists>s labels prob probs label.
         r field = Some (PStr s) \<and>
         model (str_lower caps (replace_nl s)) = Inr (labels, prob # probs) \<and>
         top_label (labels, prob # probs) = Inr label)"
      by (rule a)
  next
    assume "fst (map_in_place ?f self) = None"
    then show "length (rows (dataset (snd (map_in_place ?f self)))) = length (rows (dataset self))"
      by (simp add: map_in_place_rows)
  next
    fix i
    assume "fst (map_in_place ?f self) = None" and "i < length (rows (dataset self))"
    then show "\<exists>s labels prob probs label.
       (rows (dataset self) ! i) field = Some (PStr s) \<and>
       model (str_lower caps (replace_nl s)) = Inr (labels, prob # probs) \<and>
       top_label (labels, prob # probs) = Inr label \<and>
       (rows (dataset (snd (map_in_place ?f self))) ! i) (''__seo_spam__'' @ field) =
         Some (PBool (label = ascii ''discard'')) \<and>
       (rows (dataset (snd (map_in_place ?f self))) ! i) (''__seo_spam_prob__'' @ field) =
         Some (PFloat (Fin (if label = ascii ''discard'' then prob else 1 - prob)))"
      by (rule b)
  qed
qed

theorem detect_seo_spam_calibration_witness:
  "(rows (dataset (snd (detect_seo_spam (test_caps\<lparr>load_fasttext := \<lambda>name. Inr spam_model\<rparr>) ''text''
      (test_pipeline [[''text'' \<mapsto> PStr (ascii ''hello'')], [''text'' \<mapsto> PStr (ascii ''buy now'')]])))) ! 0)
      ''__seo_spam__text'' = Some (PBool False) \<and>
   (rows (dataset (snd (detect_seo_spam (test_caps\<lparr>load_fasttext := \<lambda>name. Inr spam_model\<rparr>) ''text''
      (test_pipeline [[''text'' \<mapsto> PStr (ascii ''hello'')], [''text'' \<mapsto> PStr (ascii ''buy now'')]])))) ! 0)
      ''__seo_spam_prob__text'' = Some (PFloat (Fin (1 / 10))) \<and>
   (rows (dataset (snd (detect_seo_spam (test_caps\<lparr>load_fasttext := \<lambda>name. Inr spam_model\<rparr>) ''text''
      (test_pipeline [[''text'' \<mapsto> PStr (ascii ''hello'')], [''text'' \<mapsto> PStr (ascii ''buy now'')]])))) ! 1)
      ''__seo_spam__text'' = Some (PBool True) \<and>
   (rows (dataset (snd (detect_seo_spam (test_caps\<lparr>load_fasttext := \<lambda>name. Inr spam_model\<rparr>) ''text''
      (test_pipeline [[''text'' \<mapsto> PStr (ascii ''hello'')], [''text'' \<mapsto> PStr (ascii ''buy now'')]])))) ! 1)
      ''__seo_spam_prob__text'' = Some (PFloat (Fin (8 / 10)))"
proof -
  let ?caps = "test_caps\<lparr>load_fasttext := \<lambda>name. Inr spam_model\<rparr>"
  let ?p = "test_pipeline [[''text'' \<mapsto> PStr (ascii ''hello'')], [''text'' \<mapsto> PStr (ascii ''buy now'')]]"
  let ?R = "detect_seo_spam ?caps ''text'' ?p"
  have f: "features (dataset ?p) ''text'' = Some ''string''"
    by (simp add: test_pipeline_def)
  have l: "load_fasttext ?caps ''seo_spam.ftz'' = Inr spam_model"
    by simp
  have r: "rows (dataset ?p) = [[''text'' \<mapsto> PStr (ascii ''hello'')], [''text'' \<mapsto> PStr (ascii ''buy now'')]]"
    by (simp add: test_pipeline_def)
  have lo: "str_lower ?caps = (\<lambda>s. s)"
    by (simp add: test_caps_def)
  have m0: "spam_model (replace_nl (ascii ''hello'')) = Inr ([ascii ''__label__keep''], [9 / 10])"
    by (simp add: spam_model_def replace_nl_def ascii_def)
  have m1: "spam_model (replace_nl (ascii ''buy now'')) = Inr ([ascii ''__label__discard''], [8 / 10])"
    by (simp add: spam_model_def replace_nl_def ascii_def)
  have kd: "ascii ''keep'' \<noteq> ascii ''discard''"
    by (simp add: ascii_def)
  note inst = detect_seo_spam_calibration [OF f l]
  have ok: "fst ?R = None"
    by (simp add: detect_seo_spam_def f l map_in_place_None r detect_seo_spam_row_def lo m0 m1
        top_label_keep top_label_discard)
  with inst have all: "\<forall>i<2. \<exists>s labels prob probs label.
         (rows (dataset ?p) ! i) ''text'' = Some (PStr s) \<and>
         spam_model (str_lower ?caps (replace_nl s)) = Inr (labels, prob # probs) \<and>
         top_label (labels, prob # probs) = Inr label \<and>
         (rows (dataset (snd ?R)) ! i) (''__seo_spam__'' @ ''text'') =
           Some (PBool (label = ascii ''discard'')) \<and>
         (rows (dataset (snd ?R)) ! i) (''__seo_spam_prob__'' @ ''text'') =
           Some (PFloat (Fin (if label = ascii ''discard'' then prob else 1 - prob)))"
    by (simp add: r del: append.simps)
  from all [rule_format, of 0] have r0:
    "(rows (dataset (snd ?R)) ! 0) (''__seo_spam__'' @ ''text'') = Some (PBool False) \<and>
     (rows (dataset (snd ?R)) ! 0) (''__seo_spam_prob__'' @ ''text'') = Some (PFloat (Fin (1 / 10)))"
    using kd by (auto simp: r lo m0 top_label_keep simp del: append.simps)
  from all [rule_format, of 1] have r1:
    "(rows (dataset (snd ?R)) ! 1) (''__seo_spam__'' @ ''text'') = Some (PBool True) \<and>
     (rows (dataset (snd ?R)) ! 1) (''__seo_spam_prob__'' @ ''text'') = Some (PFloat (Fin (8 / 10)))"
    by (auto simp: r lo m1 top_label_discard simp del: append.simps)
  from r0 r1 show ?thesis by simp
qed

subsection \<open>Missing fields\<close>

text \<open>
  Claim C4 (the code does not do this). \<open>count_tokens\<close> checks no schema. With a listed
  field that the dataset lacks, the subscript raises \<open>KeyError\<close> while the first row is
  mapped, and on a dataset without rows nothing is raised at all.
\<close>

theorem count_tokens_missing_field:
  "count_tokens caps [''text'', ''missing''] None (test_pipeline [[''text'' \<mapsto> PStr (ascii ''hi'')]]) =
     (Some (KeyError ''missing''), test_pipeline [[''text'' \<mapsto> PStr (ascii ''hi'')]]) \<and>
   fst (count_tokens caps [''text'', ''missing''] None (test_pipeline [])) = None"
  by (simp add: count_tokens_def map_in_place_def ds_map_def test_pipeline_def)

text \<open>
  Claim C5. \<open>detect_language\<close> on a field that the schema lacks raises before anything
  else happens, and the pipeline is as it was. \<open>tag_string\<close> never raises, whatever fields
  are listed, and it writes a tag into every row: true exactly when some listed field that
  the row has holds a value whose text matches (contains one of the values, or anything at
  all when no value is given). A listed field that the row lacks counts for nothing: the tag
  is the one \<open>tag_\<close> computes from the listed fields that the row has.
\<close>

theorem missing_field_asymmetry:
  "(field \<notin> dom (features (dataset self)) \<longrightarrow>
      detect_language caps field self = (Some (FieldNotFound field), self)) \<and>
   fst (tag_string caps fns vals tag self) = None \<and>
   rows (dataset (snd (tag_string caps fns vals tag self))) =
     map (\<lambda>r. r(''__tag__'' @ tag \<mapsto>
            PBool (\<exists>f\<in>set fns. \<exists>v. r f = Some v \<and>
                     (vals = [] \<or>
                      (\<exists>lit\<in>set vals. sublist lit (py_str (repr_float caps) v))))))
       (rows (dataset self)) \<and>
   (\<exists>regexp. re_compile (join [124] (map re_escape vals)) = Some regexp \<and>
      rows (dataset (snd (tag_string caps fns vals tag self))) =
        map (\<lambda>r. update_row r (tag_row caps regexp tag (filter (\<lambda>f. f \<in> dom r) fns) r))
          (rows (dataset self)))"
proof (intro conjI impI)
  assume "field \<notin> dom (features (dataset self))"
  then show "detect_language caps field self = (Some (FieldNotFound field), self)"
    by (simp add: detect_language_def)
next
  show "fst (tag_string caps fns vals tag self) = None"
    by (simp add: tag_string_rows)
next
  have "(\<exists>b\<in>set (if vals = [] then [[]] else vals). sublist b s) \<longleftrightarrow>
      (vals = [] \<or> (\<exists>lit\<in>set vals. sublist lit s))" for s :: pystr
    by simp
  then show "rows (dataset (snd (tag_string caps fns vals tag self))) =
     map (\<lambda>r. r(''__tag__'' @ tag \<mapsto>
            PBool (\<exists>f\<in>set fns. \<exists>v. r f = Some v \<and>
                     (vals = [] \<or>
                      (\<exists>lit\<in>set vals. sublist lit (py_str (repr_float caps) v))))))
       (rows (dataset self))"
    by (simp only: tag_string_rows)
next
  show "\<exists>regexp. re_compile (join [124] (map re_escape vals)) = Some regexp \<and>
      rows (dataset (snd (tag_string caps fns vals tag self))) =
        map (\<lambda>r. update_row r (tag_row caps regexp tag (filter (\<lambda>f. f \<in> dom r) fns) r))
          (rows (dataset self))"
    by (simp add: tag_string_def compile_escaped map_in_place_total tag_row_present)
qed

theorem missing_field_asymmetry_witness:
  "detect_language test_caps ''title'' (test_pipeline [[''text'' \<mapsto> PStr (ascii ''a scam'')]]) =
     (Some (FieldNotFound ''title''), test_pipeline [[''text'' \<mapsto> PStr (ascii ''a scam'')]]) \<and>
   fst (tag_string test_caps [''title'', ''text''] [ascii ''scam''] ''junk''
          (test_pipeline [[''text'' \<mapsto> PStr (ascii ''a scam'')]])) = None \<and>
   rows (dataset (snd (tag_string test_caps [''title'', ''text''] [ascii ''scam''] ''junk''
          (test_pipeline [[''text'' \<mapsto> PStr (ascii ''a scam'')]])))) =
     [[''text'' \<mapsto> PStr (ascii ''a scam''), ''__tag__junk'' \<mapsto> PBool True]]"
proof -
  let ?p = "test_pipeline [[''text'' \<mapsto> PStr (ascii ''a scam'')]]"
  let ?R = "tag_string test_caps [''title'', ''text''] [ascii ''scam''] ''junk'' ?p"
  have nf: "''title'' \<notin> dom (features (dataset ?p))"
    by (simp add: test_pipeline_def)
  have r: "rows (dataset ?p) = [[''text'' \<mapsto> PStr (ascii ''a scam'')]]"
    by (simp add: test_pipeline_def)
  have hit: "sublist (ascii ''scam'') (ascii ''a scam'')"
    by (simp add: ascii_def sublist_code)
  note inst = missing_field_asymmetry [of "''title''" ?p test_caps "[''title'', ''text'']"
      "[ascii ''scam'']" "''junk''"]
  from inst nf have d: "detect_language test_caps ''title'' ?p = (Some (FieldNotFound ''title''), ?p)"
    by blast
  from inst have t: "fst ?R = None"
    by blast
  from inst have "rows (dataset (snd ?R)) =
     map (\<lambda>r. r(''__tag__'' @ ''junk'' \<mapsto>
            PBool (\<exists>f\<in>set [''title'', ''text'']. \<exists>v. r f = Some v \<and>
                     ([ascii ''scam''] = [] \<or>
                      (\<exists>lit\<in>set [ascii ''scam''].
                         sublist lit (py_str (repr_float test_caps) v))))))
       (rows (dataset ?p))"
    by blast
  with hit have "rows (dataset (snd ?R)) =
      [[''text'' \<mapsto> PStr (ascii ''a scam''), ''__tag__junk'' \<mapsto> PBool True]]"
    by (simp add: r)
  with d t show ?thesis by simp
qed

subsection \<open>Language\<close>

text \<open>
  Claim C6 (the code does not do this for a value that is not text). With a model that
  answers with the very text it was asked about, the language written for an object whose
  printed form has a line feed still has the line feed: the text went to the model
  unchanged. For the same characters held as text the line feed has become a space.
\<close>

theorem detect_language_row_object_keeps_newline:
  "detect_language_row caps (\<lambda>s. Inr ([ascii ''__label__'' @ s], [1])) ''field''
     [''field'' \<mapsto> PObj (ascii ''[[1 2]'' @ [10] @ ascii '' [3 4]]'')] =
     Inr [(''__language'', PStr (ascii ''[[1 2]'' @ [10] @ ascii '' [3 4]]''))] \<and>
   detect_language_row caps (\<lambda>s. Inr ([ascii ''__label__'' @ s], [1])) ''field''
     [''field'' \<mapsto> PStr (ascii ''[[1 2]'' @ [10] @ ascii '' [3 4]]'')] =
     Inr [(''__language'', PStr (ascii ''[[1 2]'' @ [32] @ ascii '' [3 4]]''))]"
  by (simp add: detect_language_row_def top_label_def ascii_def replace_nl_def)

subsection \<open>Personal information\<close>

text \<open>
  Claim C8. \<open>detect_pii\<close> never raises, and in every row each of \<open>__pii__email\<close>,
  \<open>__pii__phone\<close> and \<open>__pii__credential\<close> is true exactly when some listed field that the
  row has yields a finding of that name, and \<open>__pii__any\<close> exactly when some listed field
  that the row has yields a finding at all. A row whose only finding is a URL gets three
  times false and \<open>__pii__any\<close> true.
\<close>

theorem detect_pii_flags:
  "fst (detect_pii caps fns self) = None \<and>
   length (rows (dataset (snd (detect_pii caps fns self)))) = length (rows (dataset self)) \<and>
   (\<forall>i<length (rows (dataset self)).
      (\<forall>c\<in>set [''email'', ''phone'', ''credential''].
         (rows (dataset (snd (detect_pii caps fns self))) ! i) (''__pii__'' @ c) =
           Some (PBool (\<exists>f\<in>set fns. \<exists>v. (rows (dataset self) ! i) f = Some v \<and>
                   (\<exists>x\<in>set (list_filth caps (py_str (repr_float caps) v)). detector_name x = c)))) \<and>
      (rows (dataset (snd (detect_pii caps fns self))) ! i) ''__pii__any'' =
        Some (PBool (\<exists>f\<in>set fns. \<exists>v. (rows (dataset self) ! i) f = Some v \<and>
                list_filth caps (py_str (repr_float caps) v) \<noteq> [])))"
proof -
  have rs: "rows (dataset (snd (detect_pii caps fns self))) =
      map (\<lambda>r. update_row r (detect_pii_row caps fns r)) (rows (dataset self))"
    and ok: "fst (detect_pii caps fns self) = None"
    by (simp_all add: detect_pii_def map_in_place_total)
  show ?thesis
    unfolding rs
  proof (intro conjI allI impI ballI)
    show "fst (detect_pii caps fns self) = None" by (rule ok)
  next
    show "length (map (\<lambda>r. update_row r (detect_pii_row caps fns r)) (rows (dataset self))) =
        length (rows (dataset self))"
      by simp
  next
    fix i c
    assume "i < length (rows (dataset self))" and "c \<in> set [''email'', ''phone'', ''credential'']"
    then show "(map (\<lambda>r. update_row r (detect_pii_row caps fns r)) (rows (dataset self)) ! i)
          (''__pii__'' @ c) =
        Some (PBool (\<exists>f\<in>set fns. \<exists>v. (rows (dataset self) ! i) f = Some v \<and>
                (\<exists>x\<in>set (list_filth caps (py_str (repr_float caps) v)). detector_name x = c)))"
      by (simp only: nth_map detect_pii_row_category)
  next
    fix i
    assume "i < length (rows (dataset self))"
    then show "(map (\<lambda>r. update_row r (detect_pii_row caps fns r)) (rows (dataset self)) ! i)
          ''__pii__any'' =
        Some (PBool (\<exists>f\<in>set fns. \<exists>v. (rows (dataset self) ! i) f = Some v \<and>
                list_filth caps (py_str (repr_float caps) v) \<noteq> []))"
      by (simp only: nth_map detect_pii_row_any)
  qed
qed

theorem detect_pii_flags_witness:
  "(rows (dataset (snd (detect_pii (test_caps\<lparr>list_filth := url_scanner\<rparr>) [''title'', ''text'']
      (test_pipeline [[''text'' \<mapsto> PStr (ascii ''see x.org'')]])))) ! 0) ''__pii__email'' =
     Some (PBool False) \<and>
   (rows (dataset (snd (detect_pii (test_caps\<lparr>list_filth := url_scanner\<rparr>) [''title'', ''text'']
      (test_pipeline [[''text'' \<mapsto> PStr (ascii ''see x.org'')]])))) ! 0) ''__pii__phone'' =
     Some (PBool False) \<and>
   (rows (dataset (snd (detect_pii (test_caps\<lparr>list_filth := url_scanner\<rparr>) [''title'', ''text'']
      (test_pipeline [[''text'' \<mapsto> PStr (ascii ''see x.org'')]])))) ! 0) ''__pii__credential'' =
     Some (PBool False) \<and>
   (rows (dataset (snd (detect_pii (test_caps\<lparr>list_filth := url_scanner\<rparr>) [''title'', ''text'']
      (test_pipeline [[''text'' \<mapsto> PStr (ascii ''see x.org'')]])))) ! 0) ''__pii__any'' =
     Some (PBool True)"
  using detect_pii_flags [of "test_caps\<lparr>list_filth := url_scanner\<rparr>" "[''title'', ''text'']"
      "test_pipeline [[''text'' \<mapsto> PStr (ascii ''see x.org'')]]"]
  by (simp add: test_pipeline_def url_scanner_def)

subsection \<open>Matching\<close>

text \<open>
  Claim C7, amended: for a list of values that is not empty. \<open>tag_string\<close> does not raise,
  and the tag of a row is true exactly when one of the listed fields is in the row and its
  value, through \<open>str\<close>, contains one of the values as a contiguous run of characters
  (compared character by character, so case matters and nothing in a value is an operator).
  The fields are taken in the order given: a first field that matches decides at once,
  whatever is listed after it, and one that is missing or does not match passes the
  decision on to the rest of the list.
\<close>

theorem tag_string_literal:
  assumes "vals \<noteq> []"
  shows "fst (tag_string caps fns vals tag self) = None \<and>
    rows (dataset (snd (tag_string caps fns vals tag self))) =
      map (\<lambda>r. r(''__tag__'' @ tag \<mapsto>
             PBool (\<exists>f\<in>set fns. \<exists>v. r f = Some v \<and>
                      (\<exists>lit\<in>set vals. sublist lit (py_str (repr_float caps) v)))))
        (rows (dataset self)) \<and>
    (\<exists>regexp. re_compile (join [124] (map re_escape vals)) = Some regexp \<and>
       (\<forall>f post r.
          (\<exists>v. r f = Some v \<and> (\<exists>lit\<in>set vals. sublist lit (py_str (repr_float caps) v))) \<longrightarrow>
          tag_row caps regexp tag (f # post) r = [(''__tag__'' @ tag, PBool True)]) \<and>
       (\<forall>f post r.
          \<not> (\<exists>v. r f = Some v \<and> (\<exists>lit\<in>set vals. sublist lit (py_str (repr_float caps) v))) \<longrightarrow>
          tag_row caps regexp tag (f # post) r = tag_row caps regexp tag post r))"
proof -
  from assms have c: "re_compile (join [124] (map re_escape vals)) = Some vals"
    by (simp add: compile_escaped)
  have hit: "tag_row caps vals tag (f # post) r = [(''__tag__'' @ tag, PBool True)]"
    if "\<exists>v. r f = Some v \<and> (\<exists>lit\<in>set vals. sublist lit (py_str (repr_float caps) v))"
    for f post r
    using that by (auto simp: tag_row_eq search_iff)
  have miss: "tag_row caps vals tag (f # post) r = tag_row caps vals tag post r"
    if "\<not> (\<exists>v. r f = Some v \<and> (\<exists>lit\<in>set vals. sublist lit (py_str (repr_float caps) v)))"
    for f post r
    using that by (auto simp: tag_row_eq search_iff)
  from assms tag_string_rows [of caps fns vals tag self] c hit miss show ?thesis
    by simp
qed

theorem tag_string_literal_witness:
  "rows (dataset (snd (tag_string test_caps [''text''] [ascii ''scam''] ''junk''
      (test_pipeline [[''text'' \<mapsto> PStr (ascii ''This is a scam'')],
                      [''text'' \<mapsto> PStr (ascii ''This is a SCAM'')]])))) =
   [[''text'' \<mapsto> PStr (ascii ''This is a scam''), ''__tag__junk'' \<mapsto> PBool True],
    [''text'' \<mapsto> PStr (ascii ''This is a SCAM''), ''__tag__junk'' \<mapsto> PBool False]]"
  using tag_string_literal [of "[ascii ''scam'']" test_caps "[''text'']" "''junk''"
      "test_pipeline [[''text'' \<mapsto> PStr (ascii ''This is a scam'')],
                      [''text'' \<mapsto> PStr (ascii ''This is a SCAM'')]]"]
  by (simp add: test_pipeline_def ascii_def sublist_code)

text \<open>
  Claim C7 as stated fails for the empty list of values: the row is tagged, although no
  value is contained in its text.
\<close>

theorem tag_string_empty_values_counterexample:
  "(rows (dataset (snd (tag_string test_caps [''text''] [] ''junk''
      (test_pipeline [[''text'' \<mapsto> PStr (ascii ''abc'')]])))) ! 0) ''__tag__junk'' = Some (PBool True) \<and>
   \<not> (\<exists>f\<in>set [''text'']. \<exists>v. [''text'' \<mapsto> PStr (ascii ''abc'')] f = Some v \<and>
         (\<exists>lit\<in>set ([] :: pystr list). sublist lit (py_str (repr_float test_caps) v)))"
  by (simp add: tag_string_def map_in_place_def ds_map_def test_pipeline_def match_at_def ascii_def)

text \<open>
  Claim C10. The join of no values is the empty pattern, which is found in every text. So
  with the empty list of values \<open>tag_string\<close> tags a row true exactly when the row has one
  of the listed fields.
\<close>

theorem tag_string_no_values:
  "re_compile (join [124] (map re_escape [])) = Some [[]] \<and>
   (\<forall>s. search [[]] s) \<and>
   fst (tag_string caps fns [] tag self) = None \<and>
   rows (dataset (snd (tag_string caps fns [] tag self))) =
     map (\<lambda>r. r(''__tag__'' @ tag \<mapsto> PBool (\<exists>f\<in>set fns. r f \<noteq> None))) (rows (dataset self))"
  using tag_string_rows [of caps fns "[]" tag self] by (auto simp: search_iff)

theorem tag_string_no_values_witness:
  "rows (dataset (snd (tag_string test_caps [''title'', ''text''] [] ''junk''
      (test_pipeline [[''text'' \<mapsto> PInt 7], [''other'' \<mapsto> PStr (ascii ''abc'')]])))) =
   [[''text'' \<mapsto> PInt 7, ''__tag__junk'' \<mapsto> PBool True],
    [''other'' \<mapsto> PStr (ascii ''abc''), ''__tag__junk'' \<mapsto> PBool False]]"
  using tag_string_no_values [of test_caps "[''title'', ''text'']" "''junk''"
      "test_pipeline [[''text'' \<mapsto> PInt 7], [''other'' \<mapsto> PStr (ascii ''abc'')]]"]
  by (simp add: test_pipeline_def)

subsection \<open>Counting\<close>

text \<open>
  Claim C9. Without a tokenizer, when every row has every listed field, \<open>count_tokens\<close>
  succeeds and writes, for each listed field, \<open>__byte_count__<field>\<close> = the number of bytes
  of the UTF-8 encoding of \<open>str\<close> of the value. The five characters h, e-acute, l, l, o
  count 6.
\<close>

theorem count_tokens_byte_count:
  assumes "\<forall>r\<in>set (rows (dataset self)). \<forall>f\<in>set fns. f \<in> dom r"
  shows "fst (count_tokens caps fns None self) = None \<and>
    length (rows (dataset (snd (count_tokens caps fns None self)))) = length (rows (dataset self)) \<and>
    (\<forall>i<length (rows (dataset self)). \<forall>f\<in>set fns. \<exists>v.
       (rows (dataset self) ! i) f = Some v \<and>
       (rows (dataset (snd (count_tokens caps fns None self))) ! i) (''__byte_count__'' @ f) =
         Some (PInt (int (length (concat (map utf8_encode (py_str (repr_float caps) v)))))))"
proof -
  let ?f = "count_row ''__byte_count__'' (\<lambda>x. byte_len (py_str (repr_float caps) x)) fns"
  have ok: "fst (map_in_place ?f self) = None"
    using assms by (simp add: map_in_place_None count_row_present)
  have "\<exists>v. (rows (dataset self) ! i) f = Some v \<and>
       (rows (dataset (snd (map_in_place ?f self))) ! i) (''__byte_count__'' @ f) =
         Some (PInt (int (length (concat (map utf8_encode (py_str (repr_float caps) v))))))"
    if i: "i < length (rows (dataset self))" and f: "f \<in> set fns" for i f
  proof -
    from i have mem: "rows (dataset self) ! i \<in> set (rows (dataset self))" by simp
    with assms have present: "\<forall>f\<in>set fns. f \<in> dom (rows (dataset self) ! i)" by blast
    from map_in_place_rows [OF ok] i obtain out where
      out: "?f (rows (dataset self) ! i) = Inr out"
        "rows (dataset (snd (map_in_place ?f self))) ! i = update_row (rows (dataset self) ! i) out"
      by blast
    from out(1) count_row_present [OF present] have
      "out = map (\<lambda>f. (''__byte_count__'' @ f,
          PInt (int (byte_len (py_str (repr_float caps) (the ((rows (dataset self) ! i) f))))))) fns"
      by simp
    with out(2) f present show ?thesis
      by (auto simp: update_row_named byte_len_def simp del: append.simps)
  qed
  with ok map_in_place_rows [OF ok] show ?thesis
    by (simp add: count_tokens_def)
qed

theorem count_tokens_byte_count_witness:
  "(rows (dataset (snd (count_tokens test_caps [''body''] None
      (test_pipeline [[''body'' \<mapsto> PStr [104, 233, 108, 108, 111]]])))) ! 0) ''__byte_count__body'' =
     Some (PInt 6) \<and> length [104, 233, 108, 108, 111 :: nat] = 5"
  using count_tokens_byte_count [of "test_pipeline [[''body'' \<mapsto> PStr [104, 233, 108, 108, 111]]]"
      "[''body'']" test_caps]
  by (simp add: test_pipeline_def utf8_encode_def)

end
